theory Spec2Isabelle
  imports Complex_Main "HOL-Library.Char_ord" "HOL-Library.List_Lexorder"
begin

section \<open>Values of the host language\<close>

text \<open>
  The profiling engine of \<^verbatim>\<open>src/app/page.tsx\<close> works on cells of type
  \<^verbatim>\<open>string | number | null\<close>; reading a key that a row does not have gives
  \<^verbatim>\<open>undefined\<close>, or a member that every object inherits. A number is a finite value,
  an infinity or NaN; a finite number is held as the real it denotes, and the sign of zero
  is not modelled. A string is a list of code units in the range 0..255.
\<close>

datatype jsnum = Fin real | PosInf | NegInf | NaN

text \<open>
  \<open>ObjV t\<close> is a function or an object. The engine only ever asks for its type, compares
  it with null, undefined and the empty text, and turns it into its text \<open>t\<close>.
\<close>

datatype cell = NumV jsnum | StrV string | NullV | UndefV | ObjV string

text \<open>
  What the engine takes from the language runtime rather than from the repository:
  the numeric value of a trimmed, non-empty text (\<^verbatim>\<open>StrNumericLiteral\<close>; NaN when the
  text is no literal), the time value of a date text (\<^verbatim>\<open>Date.parse\<close>; NaN when it is
  no date), the decimal text of a number (\<^verbatim>\<open>Number::toString\<close>), the rounding of an
  exact arithmetic result to a number of the language (to the nearest double, or to an
  infinity), and the number of arguments that one call may be given.
\<close>

record js_runtime =
  strNumericLiteral :: "string \<Rightarrow> jsnum"
  dateParse :: "string \<Rightarrow> jsnum"
  numberToString :: "real \<Rightarrow> string"
  round64 :: "real \<Rightarrow> jsnum"
  argumentLimit :: int

definition isWhiteSpace :: "char \<Rightarrow> bool" where
  \<comment> \<open>TAB, LF, VT, FF, CR, SP, NBSP: white space and line terminators below 256.\<close>
  "isWhiteSpace c \<longleftrightarrow> (of_char c :: nat) \<in> {9, 10, 11, 12, 13, 32, 160}"

definition trim :: "string \<Rightarrow> string" where
  "trim s = rev (dropWhile isWhiteSpace (rev (dropWhile isWhiteSpace s)))"

definition Number :: "js_runtime \<Rightarrow> string \<Rightarrow> jsnum" where
  \<comment> \<open>\<^verbatim>\<open>Number(text)\<close>: white space around the literal is skipped, and a text of white
      space only is the number 0.\<close>
  "Number R s = (let t = trim s in if t = [] then Fin 0 else strNumericLiteral R t)"

definition replaceCommas :: "string \<Rightarrow> string" where
  \<comment> \<open>\<^verbatim>\<open>.replace(/,/g, ".")\<close>\<close>
  "replaceCommas s = map (\<lambda>c. if c = CHR '','' then CHR ''.'' else c) s"

section \<open>Value coercion\<close>

definition toNumber :: "js_runtime \<Rightarrow> cell \<Rightarrow> real option" where
  "toNumber R v =
     (case v of
        NullV \<Rightarrow> None
      | UndefV \<Rightarrow> None
      | _ \<Rightarrow>
          (let numericValue =
                 (case v of
                    NumV n \<Rightarrow> n
                  | StrV s \<Rightarrow> Number R (replaceCommas s)
                  | ObjV t \<Rightarrow> Number R (replaceCommas t))
           in case numericValue of Fin x \<Rightarrow> Some x | _ \<Rightarrow> None))"

definition isNullValue :: "cell \<Rightarrow> bool" where
  "isNullValue v =
     (case v of
        NullV \<Rightarrow> True
      | UndefV \<Rightarrow> True
      | NumV n \<Rightarrow> False
      | StrV s \<Rightarrow> trim s = []
      | ObjV t \<Rightarrow> trim t = [])"

section \<open>Order detection\<close>

datatype scalar = SNum jsnum | SStr string

datatype Order = ascendente | descendente | sin_orden

definition numLess :: "jsnum \<Rightarrow> jsnum \<Rightarrow> bool option" where
  \<comment> \<open>\<^verbatim>\<open>x < y\<close> on numbers; \<open>None\<close> is the undefined comparison with NaN.\<close>
  "numLess x y =
     (case (x, y) of
        (NaN, _) \<Rightarrow> None
      | (_, NaN) \<Rightarrow> None
      | (Fin a, Fin b) \<Rightarrow> Some (a < b)
      | (NegInf, NegInf) \<Rightarrow> Some False
      | (NegInf, _) \<Rightarrow> Some True
      | (_, NegInf) \<Rightarrow> Some False
      | (PosInf, _) \<Rightarrow> Some False
      | (_, PosInf) \<Rightarrow> Some True)"

definition isLessThan :: "js_runtime \<Rightarrow> scalar \<Rightarrow> scalar \<Rightarrow> bool option" where
  \<comment> \<open>The relational comparison of the language: two texts compare by code units, any
      other pair compares as numbers.\<close>
  "isLessThan R a b =
     (case (a, b) of
        (SStr s, SStr t) \<Rightarrow> Some (s < t)
      | (SStr s, SNum y) \<Rightarrow> numLess (Number R s) y
      | (SNum x, SStr t) \<Rightarrow> numLess x (Number R t)
      | (SNum x, SNum y) \<Rightarrow> numLess x y)"

definition lt :: "js_runtime \<Rightarrow> scalar \<Rightarrow> scalar \<Rightarrow> bool" where
  \<comment> \<open>\<^verbatim>\<open>a < b\<close>\<close>
  "lt R a b \<longleftrightarrow> isLessThan R a b = Some True"

definition gt :: "js_runtime \<Rightarrow> scalar \<Rightarrow> scalar \<Rightarrow> bool" where
  \<comment> \<open>\<^verbatim>\<open>a > b\<close>\<close>
  "gt R a b \<longleftrightarrow> isLessThan R b a = Some True"

definition orderStep :: "js_runtime \<Rightarrow> scalar list \<Rightarrow> nat \<Rightarrow> bool \<times> bool \<Rightarrow> bool \<times> bool" where
  \<comment> \<open>One pass of the loop body at \<open>index\<close>, on the flags (ascending, descending).\<close>
  "orderStep R values index' flags =
     (let ascending = (if lt R (values ! index') (values ! (index' - 1)) then False else fst flags);
          descending = (if gt R (values ! index') (values ! (index' - 1)) then False else snd flags)
      in (ascending, descending))"

definition detectOrder :: "js_runtime \<Rightarrow> scalar list \<Rightarrow> Order" where
  "detectOrder R values =
     (if length values < 2 then sin_orden
      else
        let flags = fold (orderStep R values) [1 ..< length values] (True, True)
        in if fst flags then ascendente
           else if snd flags then descendente
           else sin_orden)"

section \<open>Date detection\<close>

definition timeClip :: "jsnum \<Rightarrow> real option" where
  \<comment> \<open>The time value of \<^verbatim>\<open>new Date(number)\<close>: none (NaN) unless the number is finite and
      within 8.64e15 milliseconds of the epoch; else the number truncated toward zero.\<close>
  "timeClip n =
     (case n of
        Fin t \<Rightarrow> (if \<bar>t\<bar> > 8640000000000000 then None
                  else Some (of_int (if t < 0 then - \<lfloor>- t\<rfloor> else \<lfloor>t\<rfloor>)))
      | _ \<Rightarrow> None)"

definition parseDateValue :: "js_runtime \<Rightarrow> cell \<Rightarrow> real option" where
  \<comment> \<open>A date is represented by its time value; \<open>None\<close> is the source's null.
      \<^verbatim>\<open>new Date(value)\<close> parses a text, and the text of a function or object.\<close>
  "parseDateValue R v =
     (case v of
        NullV \<Rightarrow> None
      | UndefV \<Rightarrow> None
      | StrV s \<Rightarrow> (if s = [] then None else timeClip (dateParse R s))
      | NumV n \<Rightarrow> timeClip n
      | ObjV t \<Rightarrow> timeClip (dateParse R t))"

section \<open>Arithmetic on numbers\<close>

text \<open>
  The four operations of the language on its numbers: the exact result of two finite
  operands, rounded by the runtime; the fixed results on infinities and NaN. A zero
  divisor counts as positive.
\<close>

definition fadd :: "js_runtime \<Rightarrow> jsnum \<Rightarrow> jsnum \<Rightarrow> jsnum" where
  "fadd R x y =
     (case (x, y) of
        (NaN, _) \<Rightarrow> NaN
      | (_, NaN) \<Rightarrow> NaN
      | (Fin a, Fin b) \<Rightarrow> round64 R (a + b)
      | (PosInf, NegInf) \<Rightarrow> NaN
      | (NegInf, PosInf) \<Rightarrow> NaN
      | (PosInf, _) \<Rightarrow> PosInf
      | (NegInf, _) \<Rightarrow> NegInf
      | (_, PosInf) \<Rightarrow> PosInf
      | (_, NegInf) \<Rightarrow> NegInf)"

definition fneg :: "jsnum \<Rightarrow> jsnum" where
  "fneg x = (case x of Fin a \<Rightarrow> Fin (- a) | PosInf \<Rightarrow> NegInf | NegInf \<Rightarrow> PosInf | NaN \<Rightarrow> NaN)"

definition fsub :: "js_runtime \<Rightarrow> jsnum \<Rightarrow> jsnum \<Rightarrow> jsnum" where
  "fsub R x y = fadd R x (fneg y)"

definition signed :: "bool \<Rightarrow> jsnum" where
  \<comment> \<open>The infinity of the given sign (\<open>True\<close> for negative).\<close>
  "signed negative = (if negative then NegInf else PosInf)"

definition isNegative :: "jsnum \<Rightarrow> bool" where
  "isNegative x = (case x of Fin a \<Rightarrow> a < 0 | NegInf \<Rightarrow> True | _ \<Rightarrow> False)"

definition fmul :: "js_runtime \<Rightarrow> jsnum \<Rightarrow> jsnum \<Rightarrow> jsnum" where
  "fmul R x y =
     (case (x, y) of
        (NaN, _) \<Rightarrow> NaN
      | (_, NaN) \<Rightarrow> NaN
      | (Fin a, Fin b) \<Rightarrow> round64 R (a * b)
      | (Fin a, _) \<Rightarrow> (if a = 0 then NaN else signed (isNegative x \<noteq> isNegative y))
      | (_, Fin b) \<Rightarrow> (if b = 0 then NaN else signed (isNegative x \<noteq> isNegative y))
      | _ \<Rightarrow> signed (isNegative x \<noteq> isNegative y))"

definition fdiv :: "js_runtime \<Rightarrow> jsnum \<Rightarrow> jsnum \<Rightarrow> jsnum" where
  "fdiv R x y =
     (case (x, y) of
        (NaN, _) \<Rightarrow> NaN
      | (_, NaN) \<Rightarrow> NaN
      | (Fin a, Fin b) \<Rightarrow>
          (if b = 0 then (if a = 0 then NaN else signed (a < 0)) else round64 R (a / b))
      | (Fin a, _) \<Rightarrow> Fin 0
      | (_, Fin b) \<Rightarrow> signed (isNegative x \<noteq> isNegative y)
      | _ \<Rightarrow> NaN)"

definition mathFloor :: "jsnum \<Rightarrow> jsnum" where
  \<comment> \<open>\<^verbatim>\<open>Math.floor\<close>\<close>
  "mathFloor x = (case x of Fin a \<Rightarrow> Fin (of_int \<lfloor>a\<rfloor>) | _ \<Rightarrow> x)"

definition mathMin :: "jsnum \<Rightarrow> jsnum \<Rightarrow> jsnum" where
  \<comment> \<open>\<^verbatim>\<open>Math.min\<close> of two numbers\<close>
  "mathMin x y =
     (case (x, y) of
        (NaN, _) \<Rightarrow> NaN
      | (_, NaN) \<Rightarrow> NaN
      | (NegInf, _) \<Rightarrow> NegInf
      | (_, NegInf) \<Rightarrow> NegInf
      | (PosInf, _) \<Rightarrow> y
      | (_, PosInf) \<Rightarrow> x
      | (Fin a, Fin b) \<Rightarrow> Fin (min a b))"

section \<open>Histogram\<close>

record HistogramBin =
  bin :: string
  count :: nat

datatype RangeError = RangeError

fun decimalDigits :: "nat \<Rightarrow> string" where
  "decimalDigits n =
     (if n < 10 then [''0123456789'' ! n]
      else decimalDigits (n div 10) @ [''0123456789'' ! (n mod 10)])"

declare decimalDigits.simps [simp del]

definition toFixed2 :: "js_runtime \<Rightarrow> jsnum \<Rightarrow> string" where
  \<comment> \<open>\<^verbatim>\<open>x.toFixed(2)\<close>: of a finite number, the sign, then the integer \<open>n\<close> nearest to
      \<open>100 * |x|\<close> (the larger one on a tie) written with a point before its last two
      digits.\<close>
  "toFixed2 R x =
     (case x of
        NaN \<Rightarrow> ''NaN''
      | PosInf \<Rightarrow> ''Infinity''
      | NegInf \<Rightarrow> ''-Infinity''
      | Fin v \<Rightarrow>
          (let s = (if v < 0 then ''-'' else []);
               a = \<bar>v\<bar>
           in if a \<ge> 10 ^ 21 then s @ numberToString R a
              else
                let n = nat \<lfloor>a * 100 + 1 / 2\<rfloor>;
                    m = decimalDigits n;
                    m = (if length m \<le> 2 then replicate (3 - length m) (CHR ''0'') @ m else m);
                    k = length m
                in s @ take (k - 2) m @ ''.'' @ drop (k - 2) m))"

definition increment :: "nat list \<Rightarrow> jsnum \<Rightarrow> nat list" where
  \<comment> \<open>\<^verbatim>\<open>counts[index] += 1\<close>. An index that is no whole number from 0 on (a negative
      one, NaN) names a property, not an element, and leaves the elements as they are. An
      index past the end would grow the array; the caller never passes one, its index
      being at most \<open>bins - 1\<close>.\<close>
  "increment counts index' =
     (case index' of
        Fin i \<Rightarrow>
          (if 0 \<le> i \<and> i = of_int \<lfloor>i\<rfloor> \<and> nat \<lfloor>i\<rfloor> < length counts
           then counts[nat \<lfloor>i\<rfloor> := counts ! nat \<lfloor>i\<rfloor> + 1]
           else counts)
      | _ \<Rightarrow> counts)"

definition binIndex :: "js_runtime \<Rightarrow> real \<Rightarrow> jsnum \<Rightarrow> int \<Rightarrow> real \<Rightarrow> jsnum" where
  \<comment> \<open>\<^verbatim>\<open>Math.min(bins - 1, Math.floor((value - min) / step))\<close>\<close>
  "binIndex R mn step bins value =
     mathMin (Fin (of_int (bins - 1))) (mathFloor (fdiv R (fsub R (Fin value) (Fin mn)) step))"

definition buildHistogram ::
  "js_runtime \<Rightarrow> real list \<Rightarrow> int \<Rightarrow> RangeError + HistogramBin list"
where
  \<comment> \<open>\<open>values\<close> are finite numbers and \<open>bins\<close> is a whole number (8 when the caller
      gives none). \<^verbatim>\<open>Math.min(...values)\<close> passes every value as an argument of one call
      and throws a RangeError when there are more than the engine takes.
      \<^verbatim>\<open>Array.from({ length: bins })\<close> is empty for \<open>bins \<le> 0\<close> and throws a RangeError
      above the longest array length.\<close>
  "buildHistogram R values bins =
     (if length values = 0 then Inr []
      else if int (length values) > argumentLimit R then Inl RangeError
      else
        let mn = Min (set values);
            mx = Max (set values)
        in if mn = mx then Inr [\<lparr>bin = numberToString R mn, count = length values\<rparr>]
           else
             let step = fdiv R (fsub R (Fin mx) (Fin mn)) (Fin (of_int bins))
             in if bins > 4294967295 then Inl RangeError
                else
                  let counts = fold (\<lambda>value counts. increment counts (binIndex R mn step bins value))
                                 values (replicate (nat bins) 0)
                  in Inr (map (\<lambda>(count, index').
                                 let start = toFixed2 R (fadd R (Fin mn) (fmul R step (Fin (of_nat index'))));
                                     end' = toFixed2 R (fadd R (Fin mn)
                                                         (fmul R step (Fin (of_nat index' + 1))))
                                 in \<lparr>bin = start @ '' - '' @ end', count = count\<rparr>)
                            (zip counts [0 ..< length counts])))"

section \<open>Correlation\<close>

text \<open>
  The correlation is written over exact reals: its arithmetic is not rounded here. What is
  proved of it below, that it does not depend on the order of its two arguments, uses of
  the arithmetic only that a product does not depend on the order of its factors, which
  holds of rounded products as well.
\<close>

definition calculateCorrelation :: "real list \<Rightarrow> real list \<Rightarrow> real" where
  "calculateCorrelation xValues yValues =
     (if length xValues = 0 \<or> length yValues = 0 \<or> length xValues \<noteq> length yValues then 0
      else
        let n = length xValues;
            meanX = foldl (\<lambda>sum value. sum + value) 0 xValues / of_nat n;
            meanY = foldl (\<lambda>sum value. sum + value) 0 yValues / of_nat n;
            (numerator, denominatorX, denominatorY) =
              fold (\<lambda>i (numerator, denominatorX, denominatorY).
                      let xDiff = xValues ! i - meanX;
                          yDiff = yValues ! i - meanY
                      in (numerator + xDiff * yDiff,
                          denominatorX + xDiff ^ 2,
                          denominatorY + yDiff ^ 2))
                   [0 ..< n] (0, 0, 0);
            denominator = sqrt (denominatorX * denominatorY)
        in if denominator = 0 then 0 else numerator / denominator)"

section \<open>Profiling a dataset\<close>

type_synonym DataRow = "(string \<times> cell) list"

datatype DataType = numerico | texto | mixto | vacio

record ColumnStats =
  name :: string
  totalRows :: nat
  nullCount :: nat
  positiveCount :: nat
  dataType :: DataType
  ordered :: Order

datatype error = EmptyDatasetError

definition inheritedMember :: "string \<Rightarrow> cell option" where
  \<comment> \<open>The members of \<^verbatim>\<open>Object.prototype\<close>, which every row inherits: one object and
      eleven built-in functions. The text of a built-in function is laid out as most
      engines do; some break its lines otherwise.\<close>
  "inheritedMember key =
     (if key = ''__proto__'' then Some (ObjV ''[object Object]'')
      else if key = ''constructor'' then Some (ObjV ''function Object() { [native code] }'')
      else if key \<in> set [''hasOwnProperty'', ''isPrototypeOf'', ''propertyIsEnumerable'',
                           ''toLocaleString'', ''toString'', ''valueOf'', ''__defineGetter__'',
                           ''__defineSetter__'', ''__lookupGetter__'', ''__lookupSetter__'']
      then Some (ObjV (''function '' @ key @ ''() { [native code] }''))
      else None)"

definition getCell :: "DataRow \<Rightarrow> string \<Rightarrow> cell" where
  \<comment> \<open>\<^verbatim>\<open>row[column]\<close>: a row lists its own keys in order; a key that the row does not
      have is looked up in the prototype, and reads as undefined when it is not there
      either.\<close>
  "getCell row column =
     (case map_of row column of
        Some v \<Rightarrow> v
      | None \<Rightarrow> (case inheritedMember column of Some m \<Rightarrow> m | None \<Rightarrow> UndefV))"

definition orNull :: "cell \<Rightarrow> cell" where
  \<comment> \<open>\<^verbatim>\<open>value ?? null\<close>\<close>
  "orNull v = (case v of UndefV \<Rightarrow> NullV | NullV \<Rightarrow> NullV | _ \<Rightarrow> v)"

definition uniqueKeys :: "string list \<Rightarrow> string list" where
  \<comment> \<open>\<^verbatim>\<open>Array.from(new Set(keys))\<close>: the first occurrence of each key, in order.\<close>
  "uniqueKeys keys = fold (\<lambda>k seen. if k \<in> set seen then seen else seen @ [k]) keys []"

definition comparable :: "cell \<Rightarrow> scalar" where
  \<comment> \<open>\<^verbatim>\<open>typeof value === "number" ? value : String(value)\<close>\<close>
  "comparable v =
     (case v of
        NumV n \<Rightarrow> SNum n
      | StrV s \<Rightarrow> SStr s
      | NullV \<Rightarrow> SStr ''null''
      | UndefV \<Rightarrow> SStr ''undefined''
      | ObjV t \<Rightarrow> SStr t)"

definition columnValues :: "DataRow list \<Rightarrow> string \<Rightarrow> cell list" where
  \<comment> \<open>\<^verbatim>\<open>rows.map((row) => row[column] ?? null)\<close>\<close>
  "columnValues rows column = map (\<lambda>row. orNull (getCell row column)) rows"

definition columnStat :: "js_runtime \<Rightarrow> DataRow list \<Rightarrow> string \<Rightarrow> ColumnStats" where
  "columnStat R rows column =
     (let values = columnValues rows column;
          nullCount = length (filter isNullValue values);
          numericValues = List.map_filter (toNumber R) values;
          positiveCount = length (filter (\<lambda>value. value > 0) numericValues);
          nonNullValues = filter (\<lambda>value. \<not> isNullValue value) values;
          dataType =
            (if length nonNullValues > 0 then
               let numericCount = length (filter (\<lambda>value. toNumber R value \<noteq> None) nonNullValues)
               in if numericCount = length nonNullValues then numerico
                  else if numericCount = 0 then texto
                  else mixto
             else vacio);
          comparableValues = map comparable nonNullValues;
          ordered = detectOrder R comparableValues
      in \<lparr>name = column, totalRows = length rows, nullCount = nullCount,
          positiveCount = positiveCount, dataType = dataType, ordered = ordered\<rparr>)"

definition isDateColumn :: "js_runtime \<Rightarrow> DataRow list \<Rightarrow> string \<Rightarrow> bool" where
  \<comment> \<open>The predicate that filters \<open>columns\<close> into \<open>dateColumns\<close>.\<close>
  "isDateColumn R rows column =
     (let nonNullValues = filter (\<lambda>value. \<not> isNullValue value) (map (\<lambda>row. getCell row column) rows)
      in if length nonNullValues = 0 then False
         else
           let dateMatches = length (filter (\<lambda>value. parseDateValue R value \<noteq> None)
                                       (take 15 nonNullValues))
           in dateMatches \<ge> min 5 (length nonNullValues))"

record AnalysisResult =
  totalRows :: nat
  totalColumns :: nat
  hasNulls :: bool
  orderedByFirstColumn :: bool
  totalPositiveValues :: nat
  columnsWithNulls :: nat
  columnStats :: "ColumnStats list"
  numericColumns :: "string list"
  dateColumns :: "string list"
  rawRows :: "DataRow list"

definition analyzeData :: "js_runtime \<Rightarrow> DataRow list \<Rightarrow> error + AnalysisResult" where
  \<comment> \<open>\<open>columns[0]\<close> of an empty \<open>columns\<close> is undefined, and a row read at
      undefined is read at the key \<^verbatim>\<open>"undefined"\<close>.\<close>
  "analyzeData R rows =
     (if length rows = 0 then Inl EmptyDatasetError
      else
        let columns = uniqueKeys (concat (map (map fst) rows));
            columnStats = map (columnStat R rows) columns;
            numericColumns = map name (filter (\<lambda>column. dataType column = numerico) columnStats);
            dateColumns = filter (isDateColumn R rows) columns;
            columnsWithNulls = length (filter (\<lambda>column. nullCount column > 0) columnStats);
            totalPositiveValues = foldl (\<lambda>sum column. sum + positiveCount column) 0 columnStats;
            firstColumn = (case columns of [] \<Rightarrow> ''undefined'' | c # _ \<Rightarrow> c);
            firstColumnValues =
              map comparable
                (filter (\<lambda>value. \<not> isNullValue value) (map (\<lambda>row. getCell row firstColumn) rows));
            orderedByFirstColumn = (detectOrder R firstColumnValues \<noteq> sin_orden)
        in Inr \<lparr>totalRows = length rows, totalColumns = length columns,
                hasNulls = (columnsWithNulls > 0),
                orderedByFirstColumn = orderedByFirstColumn,
                totalPositiveValues = totalPositiveValues,
                columnsWithNulls = columnsWithNulls,
                columnStats = columnStats,
                numericColumns = numericColumns,
                dateColumns = dateColumns,
                rawRows = rows\<rparr>)"

section \<open>Derived series\<close>

definition numericColumnValues :: "js_runtime \<Rightarrow> DataRow list \<Rightarrow> string \<Rightarrow> real list" where
  \<comment> \<open>\<^verbatim>\<open>rawRows.map((row) => toNumber(row[column])).filter((value) => value !== null)\<close>\<close>
  "numericColumnValues R rows column = List.map_filter (\<lambda>row. toNumber R (getCell row column)) rows"

definition correlationMatrix :: "js_runtime \<Rightarrow> AnalysisResult option \<Rightarrow> real list list" where
  "correlationMatrix R analysis =
     (case analysis of
        None \<Rightarrow> []
      | Some a \<Rightarrow>
          let columns = numericColumns a
          in map (\<lambda>column.
                    let columnValues = numericColumnValues R (rawRows a) column
                    in map (\<lambda>otherColumn.
                              let otherValues = numericColumnValues R (rawRows a) otherColumn;
                                  minLength = min (length columnValues) (length otherValues)
                              in calculateCorrelation (take minLength columnValues)
                                   (take minLength otherValues))
                         columns)
                 columns)"

text \<open>
  A scatter pair is the source's object \<^verbatim>\<open>{ x, y, points }\<close>; its first two fields are
  named after the columns they hold.
\<close>

record ScatterPair =
  xColumn :: string
  yColumn :: string
  points :: "(real \<times> real) list"

definition scatterPoints :: "js_runtime \<Rightarrow> DataRow list \<Rightarrow> string \<Rightarrow> string \<Rightarrow> (real \<times> real) list" where
  \<comment> \<open>The rows where both columns coerce to a number.\<close>
  "scatterPoints R rows xc yc =
     List.map_filter
       (\<lambda>row. case (toNumber R (getCell row xc), toNumber R (getCell row yc)) of
                 (Some px, Some py) \<Rightarrow> Some (px, py)
               | _ \<Rightarrow> None)
       rows"

definition scatterPair :: "js_runtime \<Rightarrow> DataRow list \<Rightarrow> string list \<Rightarrow> nat \<times> nat \<Rightarrow> ScatterPair" where
  "scatterPair R rows columns ij =
     \<lparr>xColumn = columns ! fst ij, yColumn = columns ! snd ij,
      points = scatterPoints R rows (columns ! fst ij) (columns ! snd ij)\<rparr>"

text \<open>How a loop ends: by the \<^verbatim>\<open>return\<close> inside it, or by running out.\<close>

datatype 'a flow = Returned 'a | Finished 'a

function scatterInner ::
  "js_runtime \<Rightarrow> DataRow list \<Rightarrow> string list \<Rightarrow> nat \<Rightarrow> nat \<Rightarrow> ScatterPair list \<Rightarrow> ScatterPair list flow"
where
  "scatterInner R rows columns i j pairs =
     (if j < length columns then
        let p = scatterPair R rows columns (i, j);
            pairs' = (if length (points p) > 0 then pairs @ [p] else pairs)
        in if length pairs' \<ge> 4 then Returned pairs'
           else scatterInner R rows columns i (j + 1) pairs'
      else Finished pairs)"
  by pat_completeness auto
termination
  by (relation "measure (\<lambda>(R, rows, columns, i, j, pairs). length columns - j)") auto

declare scatterInner.simps [simp del]

function scatterOuter ::
  "js_runtime \<Rightarrow> DataRow list \<Rightarrow> string list \<Rightarrow> nat \<Rightarrow> ScatterPair list \<Rightarrow> ScatterPair list"
where
  "scatterOuter R rows columns i pairs =
     (if i < length columns then
        (case scatterInner R rows columns i (i + 1) pairs of
           Returned pairs' \<Rightarrow> pairs'
         | Finished pairs' \<Rightarrow> scatterOuter R rows columns (i + 1) pairs')
      else pairs)"
  by pat_completeness auto
termination
  by (relation "measure (\<lambda>(R, rows, columns, i, pairs). length columns - i)") auto

declare scatterOuter.simps [simp del]

definition scatterPairs :: "js_runtime \<Rightarrow> AnalysisResult option \<Rightarrow> ScatterPair list" where
  "scatterPairs R analysis =
     (case analysis of
        None \<Rightarrow> []
      | Some a \<Rightarrow> scatterOuter R (rawRows a) (numericColumns a) 0 [])"

section \<open>A runtime to evaluate with\<close>

text \<open>
  One concrete runtime, to run the definitions on inputs. It reads the decimal literals
  with an optional sign and an optional fraction, reads the calendar dates
  \<^verbatim>\<open>YYYY-MM-DD\<close> (as midnight UTC), and writes the integers below \<open>10 ^ 21\<close>. On any
  other text or number it answers NaN or the empty text, where the language may answer
  otherwise. It keeps every arithmetic result as it is, where the language rounds it to
  a double, and it takes up to 500000 arguments in a call, which is as many as any of
  the common engines takes. The theorems stated for every runtime do not depend on it.
\<close>

definition isDigit :: "char \<Rightarrow> bool" where
  "isDigit c \<longleftrightarrow> 48 \<le> (of_char c :: nat) \<and> (of_char c :: nat) \<le> 57"

definition digitsValue :: "string \<Rightarrow> nat" where
  "digitsValue s = foldl (\<lambda>acc c. 10 * acc + (of_char c - 48)) 0 s"

definition unsignedDecimal :: "string \<Rightarrow> jsnum" where
  "unsignedDecimal s =
     (let ip = takeWhile isDigit s;
          rest = dropWhile isDigit s
      in case rest of
           [] \<Rightarrow> (if ip = [] then NaN else Fin (of_nat (digitsValue ip)))
         | c # fp \<Rightarrow>
             if c = CHR ''.'' \<and> list_all isDigit fp \<and> (ip \<noteq> [] \<or> fp \<noteq> [])
             then Fin (of_nat (digitsValue ip) + of_nat (digitsValue fp) / 10 ^ length fp)
             else NaN)"

definition decimalLiteral :: "string \<Rightarrow> jsnum" where
  "decimalLiteral s =
     (case s of
        [] \<Rightarrow> NaN
      | c # cs \<Rightarrow>
          if c = CHR ''-'' then (case unsignedDecimal cs of Fin x \<Rightarrow> Fin (- x) | _ \<Rightarrow> NaN)
          else if c = CHR ''+'' then unsignedDecimal cs
          else unsignedDecimal s)"

definition daysInMonth :: "nat \<Rightarrow> nat \<Rightarrow> nat" where
  "daysInMonth y m =
     (if m = 2 then (if y mod 4 = 0 \<and> (y mod 100 \<noteq> 0 \<or> y mod 400 = 0) then 29 else 28)
      else if m \<in> {4, 6, 9, 11} then 30
      else 31)"

definition daysFromCivil :: "nat \<Rightarrow> nat \<Rightarrow> nat \<Rightarrow> int" where
  \<comment> \<open>Days from 1970-01-01 to the given day of the proleptic Gregorian calendar.\<close>
  "daysFromCivil y m d =
     (let y' = int y - (if m \<le> 2 then 1 else 0);
          era = y' div 400;
          yoe = y' - era * 400;
          mp = (int m + 9) mod 12;
          doy = (153 * mp + 2) div 5 + int d - 1;
          doe = yoe * 365 + yoe div 4 - yoe div 100 + doy
      in era * 146097 + doe - 719468)"

definition calendarDate :: "string \<Rightarrow> jsnum" where
  "calendarDate s =
     (if length s = 10 \<and> s ! 4 = CHR ''-'' \<and> s ! 7 = CHR ''-''
         \<and> list_all isDigit (take 4 s) \<and> list_all isDigit (take 2 (drop 5 s))
         \<and> list_all isDigit (drop 8 s)
      then
        let y = digitsValue (take 4 s);
            m = digitsValue (take 2 (drop 5 s));
            d = digitsValue (drop 8 s)
        in if 1 \<le> m \<and> m \<le> 12 \<and> 1 \<le> d \<and> d \<le> daysInMonth y m
           then Fin (of_int (daysFromCivil y m d * 86400000))
           else NaN
      else NaN)"

definition integerText :: "real \<Rightarrow> string" where
  "integerText x =
     (if x = of_int \<lfloor>x\<rfloor> \<and> \<bar>x\<bar> < 10 ^ 21
      then (if x < 0 then ''-'' else []) @ decimalDigits (nat \<lfloor>\<bar>x\<bar>\<rfloor>)
      else [])"

definition plainRuntime :: js_runtime where
  "plainRuntime =
     \<lparr>strNumericLiteral = decimalLiteral, dateParse = calendarDate, numberToString = integerText,
      round64 = Fin, argumentLimit = 500000\<rparr>"

section \<open>Notions the properties are stated with\<close>

text \<open>
  These follow the words of the specification, not the code; the theorems below compare
  them with the functions above.
\<close>

definition positive :: "js_runtime \<Rightarrow> cell \<Rightarrow> bool" where
  \<comment> \<open>The cell coerces to a number greater than 0.\<close>
  "positive R v = (case toNumber R v of None \<Rightarrow> False | Some n \<Rightarrow> n > 0)"

definition nonNullCells :: "DataRow list \<Rightarrow> string \<Rightarrow> cell list" where
  \<comment> \<open>The non-null raw values of a column, a missing key read as null.\<close>
  "nonNullCells rows c = filter (\<lambda>v. \<not> isNullValue v) (columnValues rows c)"

definition specValues :: "DataRow list \<Rightarrow> string \<Rightarrow> cell list" where
  \<comment> \<open>The raw values of a column as the specification reads them: the value the row
      holds at the key, and Null where the row lacks the key.\<close>
  "specValues rows c = map (\<lambda>row. case map_of row c of None \<Rightarrow> NullV | Some v \<Rightarrow> v) rows"



definition ge :: "js_runtime \<Rightarrow> scalar \<Rightarrow> scalar \<Rightarrow> bool" where
  \<comment> \<open>\<^verbatim>\<open>a >= b\<close>: the comparison \<^verbatim>\<open>a < b\<close> is defined and false.\<close>
  "ge R a b \<longleftrightarrow> isLessThan R a b = Some False"

definition le :: "js_runtime \<Rightarrow> scalar \<Rightarrow> scalar \<Rightarrow> bool" where
  \<comment> \<open>\<^verbatim>\<open>a <= b\<close>: the comparison \<^verbatim>\<open>b < a\<close> is defined and false.\<close>
  "le R a b \<longleftrightarrow> isLessThan R b a = Some False"

definition steps :: "'a list \<Rightarrow> ('a \<times> 'a) list" where
  \<comment> \<open>Each element but the first, paired with its predecessor: (predecessor, element).\<close>
  "steps vs = zip vs (tl vs)"

definition comparableValues :: "js_runtime \<Rightarrow> scalar list \<Rightarrow> bool" where
  \<comment> \<open>Every element compares with its predecessor: no comparison is undefined.\<close>
  "comparableValues R vs \<longleftrightarrow>
     list_all (\<lambda>(p, v). isLessThan R v p \<noteq> None \<and> isLessThan R p v \<noteq> None) (steps vs)"

definition nonDecreasing :: "js_runtime \<Rightarrow> scalar list \<Rightarrow> bool" where
  \<comment> \<open>Every element is \<open>\<ge>\<close> its predecessor.\<close>
  "nonDecreasing R vs \<longleftrightarrow> list_all (\<lambda>(p, v). ge R v p) (steps vs)"

definition nonIncreasing :: "js_runtime \<Rightarrow> scalar list \<Rightarrow> bool" where
  \<comment> \<open>Every element is \<open>\<le>\<close> its predecessor.\<close>
  "nonIncreasing R vs \<longleftrightarrow> list_all (\<lambda>(p, v). le R v p) (steps vs)"

definition neverFalls :: "js_runtime \<Rightarrow> scalar list \<Rightarrow> bool" where
  \<comment> \<open>No element is \<open><\<close> its predecessor.\<close>
  "neverFalls R vs \<longleftrightarrow> list_all (\<lambda>(p, v). \<not> lt R v p) (steps vs)"

definition neverRises :: "js_runtime \<Rightarrow> scalar list \<Rightarrow> bool" where
  \<comment> \<open>No element is \<open>>\<close> its predecessor.\<close>
  "neverRises R vs \<longleftrightarrow> list_all (\<lambda>(p, v). \<not> gt R v p) (steps vs)"

definition mean :: "real list \<Rightarrow> real" where
  "mean xs = sum_list xs / of_nat (length xs)"

definition indexPairs :: "nat \<Rightarrow> (nat \<times> nat) list" where
  \<comment> \<open>The pairs \<open>(i, j)\<close> with \<open>i < j < n\<close>, by \<open>i\<close> and then by \<open>j\<close>.\<close>
  "indexPairs n = concat (map (\<lambda>i. map (\<lambda>j. (i, j)) [i + 1 ..< n]) [0 ..< n])"

definition nonEmptyPair :: "ScatterPair \<Rightarrow> bool" where
  \<comment> \<open>The pair has at least one point: a row where both columns coerce to numbers.\<close>
  "nonEmptyPair p \<longleftrightarrow> points p \<noteq> []"

definition crossSum :: "real list \<Rightarrow> real list \<Rightarrow> real" where
  \<comment> \<open>The numerator the correlation loop accumulates, as a sum over the indices.\<close>
  "crossSum xs ys = (\<Sum>i\<leftarrow>[0 ..< length xs]. (xs ! i - mean xs) * (ys ! i - mean ys))"

definition squareSum :: "real list \<Rightarrow> real" where
  \<comment> \<open>The sum of squared deviations the correlation loop accumulates for one series.\<close>
  "squareSum xs = (\<Sum>i\<leftarrow>[0 ..< length xs]. (xs ! i - mean xs) ^ 2)"

text \<open>A result to evaluate the derived series on: the analysis of two rows, two columns.\<close>

definition twoColumns :: AnalysisResult where
  "twoColumns =
     \<lparr>totalRows = 2, totalColumns = 2, hasNulls = False, orderedByFirstColumn = True,
      totalPositiveValues = 4, columnsWithNulls = 0,
      columnStats = [\<lparr>name = ''a'', totalRows = 2, nullCount = 0, positiveCount = 2,
                       dataType = numerico, ordered = ascendente\<rparr>,
                     \<lparr>name = ''b'', totalRows = 2, nullCount = 0, positiveCount = 2,
                       dataType = numerico, ordered = descendente\<rparr>],
      numericColumns = [''a'', ''b''], dateColumns = [''a'', ''b''],
      rawRows = [[(''a'', NumV (Fin 1)), (''b'', NumV (Fin 4))],
                 [(''a'', NumV (Fin 2)), (''b'', NumV (Fin 2))]]\<rparr>"

text \<open>The analysis of one row of five numeric columns, which has ten pairs of columns.\<close>

definition fiveColumns :: AnalysisResult where
  "fiveColumns =
     \<lparr>totalRows = 1, totalColumns = 5, hasNulls = False, orderedByFirstColumn = False,
      totalPositiveValues = 5, columnsWithNulls = 0,
      columnStats = map (\<lambda>c. \<lparr>name = c, totalRows = 1, nullCount = 0, positiveCount = 1,
                                  dataType = numerico, ordered = sin_orden\<rparr>)
                      [''a'', ''b'', ''c'', ''d'', ''e''],
      numericColumns = [''a'', ''b'', ''c'', ''d'', ''e''],
      dateColumns = [''a'', ''b'', ''c'', ''d'', ''e''],
      rawRows = [[(''a'', NumV (Fin 1)), (''b'', NumV (Fin 2)), (''c'', NumV (Fin 3)),
                  (''d'', NumV (Fin 4)), (''e'', NumV (Fin 5))]]\<rparr>"

section \<open>Properties\<close>

subsection \<open>Reading a cell\<close>

lemma getCell_Nil:
  "getCell [] c = (case inheritedMember c of Some m \<Rightarrow> m | None \<Rightarrow> UndefV)"
  by (simp add: getCell_def)

lemma getCell_Cons: "getCell ((k, v) # row) c = (if k = c then v else getCell row c)"
  by (simp add: getCell_def)

lemmas getCell_eval = getCell_Nil getCell_Cons inheritedMember_def

subsection \<open>Coercion of null values\<close>

lemma dropWhile_all_iff: "(\<forall>x \<in> set (dropWhile P xs). P x) \<longleftrightarrow> (\<forall>x \<in> set xs. P x)"
  by (induction xs) auto

lemma trim_empty_iff: "trim s = [] \<longleftrightarrow> (\<forall>c \<in> set s. isWhiteSpace c)"
  by (simp add: trim_def dropWhile_eq_Nil_conv dropWhile_all_iff)

lemma trim_replaceCommas_blank: "trim s = [] \<Longrightarrow> trim (replaceCommas s) = []"
  by (auto simp: trim_empty_iff replaceCommas_def isWhiteSpace_def)

lemma toNumber_blank: "trim s = [] \<Longrightarrow> toNumber R (StrV s) = Some 0"
  by (simp add: toNumber_def Number_def trim_replaceCommas_blank)

lemma toNumber_blank_text: "trim t = [] \<Longrightarrow> toNumber R (ObjV t) = Some 0"
  by (simp add: toNumber_def Number_def trim_replaceCommas_blank)

lemma columnStat_fields:
  "name (columnStat R rows c) = c"
  "ColumnStats.totalRows (columnStat R rows c) = length rows"
  "nullCount (columnStat R rows c) = length (filter isNullValue (columnValues rows c))"
  "positiveCount (columnStat R rows c) =
     length (filter (\<lambda>value. value > 0) (List.map_filter (toNumber R) (columnValues rows c)))"
  by (simp_all add: columnStat_def Let_def)

lemma positive_filter:
  "length (filter (\<lambda>value. value > (0::real)) (List.map_filter f vs)) =
   length (filter (\<lambda>v. case f v of None \<Rightarrow> False | Some n \<Rightarrow> n > 0) vs)"
  by (induction vs) (auto simp: List.map_filter_simps split: option.splits)

lemma null_not_positive: "isNullValue v \<Longrightarrow> \<not> positive R v"
  by (cases v)
     (simp_all add: positive_def isNullValue_def toNumber_blank toNumber_blank_text,
      simp_all add: toNumber_def)

text \<open>
  C10. A value that is null coerces to nothing or to the number 0: a text of white space
  only is null and coerces to 0. Such values enter \<open>numericValues\<close>, and
  \<open>positiveCount\<close> counts none of them: it is the number of non-null values of the column
  that coerce to a number above 0.
\<close>

theorem null_coerces_to_none_or_zero:
  "(isNullValue v \<longrightarrow> toNumber R v = None \<or> toNumber R v = Some 0) \<and>
   (trim s = [] \<longrightarrow> isNullValue (StrV s) \<and> toNumber R (StrV s) = Some 0) \<and>
   positiveCount (columnStat R rows c) =
     length (filter (\<lambda>v. \<not> isNullValue v \<and> positive R v) (columnValues rows c))"
proof (intro conjI impI)
  assume "isNullValue v"
  then show "toNumber R v = None \<or> toNumber R v = Some 0"
    by (cases v)
       (simp_all add: isNullValue_def toNumber_blank toNumber_blank_text, simp_all add: toNumber_def)
next
  assume "trim s = []"
  then show "isNullValue (StrV s)" by (simp add: isNullValue_def)
next
  assume "trim s = []"
  then show "toNumber R (StrV s) = Some 0" by (rule toNumber_blank)
next
  have "(\<lambda>v. \<not> isNullValue v \<and> positive R v) = positive R"
    using null_not_positive by blast
  then show "positiveCount (columnStat R rows c) =
     length (filter (\<lambda>v. \<not> isNullValue v \<and> positive R v) (columnValues rows c))"
    by (simp add: columnStat_fields positive_filter positive_def [abs_def])
qed

theorem null_coerces_witness:
  "isNullValue (StrV ''  '') \<and> toNumber plainRuntime (StrV ''  '') = Some 0 \<and>
   positiveCount (columnStat plainRuntime [[(''a'', StrV ''  '')], [(''a'', NumV (Fin 2))]] ''a'') = 1"
  using null_coerces_to_none_or_zero [of "StrV ''  ''" plainRuntime "''  ''"
      "[[(''a'', StrV ''  '')], [(''a'', NumV (Fin 2))]]" "''a''"]
  by (simp add: isNullValue_def trim_def isWhiteSpace_def columnValues_def getCell_eval orNull_def
      positive_def toNumber_def)

subsection \<open>The result of an analysis\<close>

lemma analyzeData_Inl: "analyzeData R [] = Inl EmptyDatasetError"
  by (simp add: analyzeData_def)

lemma analyzeData_Inr: "rows \<noteq> [] \<Longrightarrow> \<exists>a. analyzeData R rows = Inr a"
  by (simp add: analyzeData_def Let_def)

lemma analyzeData_result:
  assumes "analyzeData R rows = Inr a"
  shows "rows \<noteq> []"
    and "AnalysisResult.totalRows a = length rows"
    and "columnStats a = map (columnStat R rows) (uniqueKeys (concat (map (map fst) rows)))"
    and "dateColumns a = filter (isDateColumn R rows) (uniqueKeys (concat (map (map fst) rows)))"
    and "numericColumns a = map name (filter (\<lambda>column. dataType column = numerico) (columnStats a))"
    and "rawRows a = rows"
    and "totalColumns a = length (columnStats a)"
    and "columnsWithNulls a = length (filter (\<lambda>column. nullCount column > 0) (columnStats a))"
    and "hasNulls a \<longleftrightarrow> columnsWithNulls a > 0"
    and "totalPositiveValues a =
           foldl (\<lambda>sum column. sum + positiveCount column) 0 (columnStats a)"
  using assms by (auto simp: analyzeData_def Let_def filter_map split: if_splits)

lemma foldl_positiveCount:
  "foldl (\<lambda>sum column. sum + positiveCount column) n cs = n + sum_list (map positiveCount cs)"
  by (induction cs arbitrary: n) simp_all

text \<open>
  C1. \<open>analyzeData\<close> fails, with the empty-dataset error, exactly on the dataset of no rows;
  on every other dataset it returns a result, with a profile for every column and with the
  row count, the row list and the derived counts filled in.
\<close>

theorem analyzeData_fails_iff_empty:
  "(analyzeData R rows = Inl EmptyDatasetError \<longleftrightarrow> length rows = 0) \<and>
   (length rows \<noteq> 0 \<longrightarrow>
      (\<exists>a. analyzeData R rows = Inr a \<and>
           AnalysisResult.totalRows a = length rows \<and>
           rawRows a = rows \<and>
           totalColumns a = length (columnStats a) \<and>
           map name (columnStats a) = uniqueKeys (concat (map (map fst) rows)) \<and>
           numericColumns a = map name (filter (\<lambda>p. dataType p = numerico) (columnStats a)) \<and>
           columnsWithNulls a = length (filter (\<lambda>p. nullCount p > 0) (columnStats a)) \<and>
           (hasNulls a \<longleftrightarrow> columnsWithNulls a > 0) \<and>
           totalPositiveValues a = sum_list (map positiveCount (columnStats a)) \<and>
           dateColumns a = filter (isDateColumn R rows) (map name (columnStats a))))"
proof (cases "rows = []")
  case True
  then show ?thesis by (simp add: analyzeData_Inl)
next
  case False
  then obtain a where a: "analyzeData R rows = Inr a"
    using analyzeData_Inr by blast
  have names: "map name (columnStats a) = uniqueKeys (concat (map (map fst) rows))"
    by (simp add: analyzeData_result(3) [OF a] columnStat_fields comp_def)
  have pos: "totalPositiveValues a = sum_list (map positiveCount (columnStats a))"
    by (simp add: analyzeData_result(10) [OF a] foldl_positiveCount)
  have dates: "dateColumns a = filter (isDateColumn R rows) (map name (columnStats a))"
    by (simp only: names analyzeData_result(4) [OF a])
  show ?thesis
    using False a names pos dates analyzeData_result(2,5,6,7,8,9) [OF a] by auto
qed

theorem analyzeData_fails_iff_empty_witness:
  "analyzeData plainRuntime [] = Inl EmptyDatasetError \<and>
   (\<exists>a. analyzeData plainRuntime [[(''a'', NumV (Fin 1))]] = Inr a \<and>
        AnalysisResult.totalRows a = 1 \<and> rawRows a = [[(''a'', NumV (Fin 1))]] \<and>
        map name (columnStats a) = [''a''])"
  using analyzeData_fails_iff_empty [of plainRuntime "[]"]
    analyzeData_fails_iff_empty [of plainRuntime "[[(''a'', NumV (Fin 1))]]"]
  by (auto simp: uniqueKeys_def)

subsection \<open>Column profiles\<close>

lemma profile_of_column:
  assumes "analyzeData R rows = Inr a" and "p \<in> set (columnStats a)"
  shows "p = columnStat R rows (name p)"
  using assms by (auto simp: analyzeData_result(3) columnStat_fields)

lemma null_count_partition:
  assumes "analyzeData R rows = Inr a" and "p \<in> set (columnStats a)"
  shows "nullCount p + length (nonNullCells rows (name p)) = ColumnStats.totalRows p \<and>
         ColumnStats.totalRows p = length rows \<and>
         nullCount p \<le> ColumnStats.totalRows p"
proof -
  let ?c = "name p"
  have p: "p = columnStat R rows ?c"
    using assms by (rule profile_of_column)
  have n: "nullCount p = length (filter isNullValue (columnValues rows ?c))"
    by (subst p) (simp add: columnStat_fields)
  have t: "ColumnStats.totalRows p = length rows"
    by (subst p) (simp add: columnStat_fields)
  have "length (filter isNullValue (columnValues rows ?c)) + length (nonNullCells rows ?c)
        = length (columnValues rows ?c)"
    unfolding nonNullCells_def by (rule sum_length_filter_compl)
  then have s: "nullCount p + length (nonNullCells rows ?c) = length rows"
    by (simp add: n columnValues_def)
  from s t show ?thesis by simp
qed

lemma own_key_cell:
  "inheritedMember c = None \<Longrightarrow>
   isNullValue (orNull (getCell row c)) =
     isNullValue (case map_of row c of None \<Rightarrow> NullV | Some v \<Rightarrow> v)"
  by (cases "map_of row c"; cases "the (map_of row c)")
     (simp_all add: getCell_def orNull_def isNullValue_def)

lemma own_key_null_count:
  "inheritedMember c = None \<Longrightarrow>
   nullCount (columnStat R rows c) = length (filter isNullValue (specValues rows c))"
  by (simp add: columnStat_fields columnValues_def specValues_def filter_map comp_def own_key_cell)

text \<open>
  C2. The code counts the nulls of a column among the values it reads with
  \<^verbatim>\<open>row[column]\<close>, and those add up with the non-null ones to the number of rows
  (\<open>null_count_partition\<close>). They are the raw values of the claim, where a missing
  key counts as Null, for every column whose name no object inherits
  (\<open>own_key_null_count\<close>). On a column named as a member of \<^verbatim>\<open>Object.prototype\<close> the
  code reads that member where a row lacks the key and counts the row as non-null. Of
  the rows \<^verbatim>\<open>[{a: 1}, {toString: 2}]\<close> the column \<^verbatim>\<open>toString\<close> has one null and one
  non-null raw value, and the code reports no null in 2 rows.
\<close>

theorem inherited_member_counted_non_null:
  "map_sum id (map nullCount \<circ> columnStats)
     (analyzeData plainRuntime [[(''a'', NumV (Fin 1))], [(''toString'', NumV (Fin 2))]])
     = Inr [1, 0] \<and>
   map_sum id (map ColumnStats.totalRows \<circ> columnStats)
     (analyzeData plainRuntime [[(''a'', NumV (Fin 1))], [(''toString'', NumV (Fin 2))]])
     = Inr [2, 2] \<and>
   specValues [[(''a'', NumV (Fin 1))], [(''toString'', NumV (Fin 2))]] ''toString''
     = [NullV, NumV (Fin 2)] \<and>
   columnValues [[(''a'', NumV (Fin 1))], [(''toString'', NumV (Fin 2))]] ''toString''
     = [ObjV ''function toString() { [native code] }'', NumV (Fin 2)]"
  by (simp add: analyzeData_def uniqueKeys_def Let_def columnStat_fields columnValues_def
      specValues_def getCell_eval orNull_def isNullValue_def trim_def
      isWhiteSpace_def)







subsection \<open>Date columns\<close>








subsection \<open>Order detection\<close>

lemma fold_orderStep:
  "fold (orderStep R vs) [Suc 0 ..< n] (a0, d0) =
     (a0 \<and> (\<forall>i. Suc 0 \<le> i \<and> i < n \<longrightarrow> \<not> lt R (vs ! i) (vs ! (i - 1))),
      d0 \<and> (\<forall>i. Suc 0 \<le> i \<and> i < n \<longrightarrow> \<not> gt R (vs ! i) (vs ! (i - 1))))"
proof (induction n)
  case 0
  show ?case by simp
next
  case (Suc n)
  show ?case
  proof (cases "Suc 0 \<le> n")
    case True
    let ?A = "a0 \<and> (\<forall>i. Suc 0 \<le> i \<and> i < n \<longrightarrow> \<not> lt R (vs ! i) (vs ! (i - 1)))"
    let ?D = "d0 \<and> (\<forall>i. Suc 0 \<le> i \<and> i < n \<longrightarrow> \<not> gt R (vs ! i) (vs ! (i - 1)))"
    have "fold (orderStep R vs) [Suc 0 ..< Suc n] (a0, d0) =
          orderStep R vs n (fold (orderStep R vs) [Suc 0 ..< n] (a0, d0))"
      using True by simp
    also have "\<dots> = orderStep R vs n (?A, ?D)"
      by (simp only: Suc.IH)
    also have "\<dots> = (?A \<and> \<not> lt R (vs ! n) (vs ! (n - 1)), ?D \<and> \<not> gt R (vs ! n) (vs ! (n - 1)))"
      by (simp add: orderStep_def)
    also have "\<dots> =
       (a0 \<and> (\<forall>i. Suc 0 \<le> i \<and> i < Suc n \<longrightarrow> \<not> lt R (vs ! i) (vs ! (i - 1))),
        d0 \<and> (\<forall>i. Suc 0 \<le> i \<and> i < Suc n \<longrightarrow> \<not> gt R (vs ! i) (vs ! (i - 1))))"
      using True by (auto simp: less_Suc_eq)
    finally show ?thesis .
  next
    case False
    then show ?thesis by auto
  qed
qed

lemma list_all_steps:
  "list_all P (steps vs) \<longleftrightarrow> (\<forall>i. 1 \<le> i \<and> i < length vs \<longrightarrow> P (vs ! (i - 1), vs ! i))"
proof -
  have "list_all P (steps vs) \<longleftrightarrow> (\<forall>k < length vs - 1. P (vs ! k, vs ! Suc k))"
    by (auto simp: steps_def list_all_length nth_tl)
  also have "\<dots> \<longleftrightarrow> (\<forall>i. 1 \<le> i \<and> i < length vs \<longrightarrow> P (vs ! (i - 1), vs ! i))"
  proof (intro iffI allI impI)
    fix i assume h: "\<forall>k < length vs - 1. P (vs ! k, vs ! Suc k)" and i: "1 \<le> i \<and> i < length vs"
    then have "i - 1 < length vs - 1" by arith
    with h have "P (vs ! (i - 1), vs ! Suc (i - 1))" by blast
    with i show "P (vs ! (i - 1), vs ! i)" by simp
  next
    fix k assume h: "\<forall>i. 1 \<le> i \<and> i < length vs \<longrightarrow> P (vs ! (i - 1), vs ! i)" and k: "k < length vs - 1"
    then have "1 \<le> Suc k \<and> Suc k < length vs" by arith
    with h have "P (vs ! (Suc k - 1), vs ! Suc k)" by blast
    then show "P (vs ! k, vs ! Suc k)" by simp
  qed
  finally show ?thesis .
qed

lemma numLess_irrefl: "numLess x x \<noteq> Some True"
  by (cases x) (simp_all add: numLess_def)

lemma isLessThan_irrefl: "isLessThan R a a \<noteq> Some True"
  by (cases a) (simp_all add: isLessThan_def numLess_irrefl)

lemma not_lt_iff_ge: "isLessThan R a b \<noteq> None \<Longrightarrow> \<not> lt R a b \<longleftrightarrow> ge R a b"
  by (cases "isLessThan R a b") (auto simp: lt_def ge_def)

lemma not_gt_iff_le: "isLessThan R b a \<noteq> None \<Longrightarrow> \<not> gt R a b \<longleftrightarrow> le R a b"
  by (cases "isLessThan R b a") (auto simp: gt_def le_def)

lemma detectOrder_flags:
  "detectOrder R vs =
     (if length vs < 2 then sin_orden
      else if \<forall>i. 1 \<le> i \<and> i < length vs \<longrightarrow> \<not> lt R (vs ! i) (vs ! (i - 1)) then ascendente
      else if \<forall>i. 1 \<le> i \<and> i < length vs \<longrightarrow> \<not> gt R (vs ! i) (vs ! (i - 1)) then descendente
      else sin_orden)"
  by (auto simp add: detectOrder_def Let_def fold_orderStep)

lemma neverFalls_iff:
  "neverFalls R vs \<longleftrightarrow> (\<forall>i. 1 \<le> i \<and> i < length vs \<longrightarrow> \<not> lt R (vs ! i) (vs ! (i - 1)))"
  by (simp add: neverFalls_def list_all_steps)

lemma neverRises_iff:
  "neverRises R vs \<longleftrightarrow> (\<forall>i. 1 \<le> i \<and> i < length vs \<longrightarrow> \<not> gt R (vs ! i) (vs ! (i - 1)))"
  by (simp add: neverRises_def list_all_steps)

lemma detectOrder_never:
  "detectOrder R vs =
     (if length vs < 2 then sin_orden
      else if neverFalls R vs then ascendente
      else if neverRises R vs then descendente
      else sin_orden)"
  by (simp only: detectOrder_flags neverFalls_iff neverRises_iff)

text \<open>
  C5, as the code has it. The order detector answers unordered when the sequence has fewer
  than 2 elements; else ascending when no element is \<open><\<close> its predecessor; else descending
  when no element is \<open>>\<close> its predecessor; else unordered. Where every element compares
  with its predecessor, no element is \<open><\<close> its predecessor exactly when every element is
  \<open>\<ge>\<close> its predecessor, and likewise for \<open>>\<close> and \<open>\<le>\<close>. A sequence of 2 or more
  equal values is ascending, the ascending check coming first.
\<close>

theorem detectOrder_classifies:
  "detectOrder R vs =
     (if length vs < 2 then sin_orden
      else if neverFalls R vs then ascendente
      else if neverRises R vs then descendente
      else sin_orden) \<and>
   (comparableValues R vs \<longrightarrow>
      (neverFalls R vs \<longleftrightarrow> nonDecreasing R vs) \<and>
      (neverRises R vs \<longleftrightarrow> nonIncreasing R vs)) \<and>
   (2 \<le> length vs \<and> (\<forall>v \<in> set vs. v = hd vs) \<longrightarrow> detectOrder R vs = ascendente)"
proof (intro conjI impI)
  show "detectOrder R vs =
     (if length vs < 2 then sin_orden
      else if neverFalls R vs then ascendente
      else if neverRises R vs then descendente
      else sin_orden)"
    by (rule detectOrder_never)
next
  assume "comparableValues R vs"
  then have c: "\<And>i. 1 \<le> i \<and> i < length vs \<Longrightarrow>
      isLessThan R (vs ! i) (vs ! (i - 1)) \<noteq> None \<and> isLessThan R (vs ! (i - 1)) (vs ! i) \<noteq> None"
    by (simp add: comparableValues_def list_all_steps)
  show "neverFalls R vs \<longleftrightarrow> nonDecreasing R vs"
    unfolding neverFalls_iff nonDecreasing_def list_all_steps using c by (simp add: not_lt_iff_ge)
  show "neverRises R vs \<longleftrightarrow> nonIncreasing R vs"
    unfolding neverRises_iff nonIncreasing_def list_all_steps using c by (simp add: not_gt_iff_le)
next
  assume h: "2 \<le> length vs \<and> (\<forall>v \<in> set vs. v = hd vs)"
  have same: "vs ! i = hd vs \<and> vs ! (i - 1) = hd vs" if "1 \<le> i \<and> i < length vs" for i
  proof -
    from that have "i < length vs" and "i - 1 < length vs" by arith+
    then have "vs ! i \<in> set vs" and "vs ! (i - 1) \<in> set vs" by simp_all
    with h show ?thesis by blast
  qed
  have "\<not> lt R (vs ! i) (vs ! (i - 1))" if "1 \<le> i \<and> i < length vs" for i
    using same [OF that] by (simp add: lt_def isLessThan_irrefl)
  then have "neverFalls R vs" by (simp add: neverFalls_iff)
  with h show "detectOrder R vs = ascendente" by (simp add: detectOrder_never)
qed

theorem detectOrder_classifies_witness:
  "detectOrder plainRuntime [SNum (Fin 1), SNum (Fin 2), SNum (Fin 2), SNum (Fin 3)] = ascendente \<and>
   nonDecreasing plainRuntime [SNum (Fin 1), SNum (Fin 2), SNum (Fin 2), SNum (Fin 3)] \<and>
   detectOrder plainRuntime [SNum (Fin 3), SNum (Fin 2), SNum (Fin 2), SNum (Fin 1)] = descendente \<and>
   nonIncreasing plainRuntime [SNum (Fin 3), SNum (Fin 2), SNum (Fin 2), SNum (Fin 1)] \<and>
   detectOrder plainRuntime [SNum (Fin 1), SNum (Fin 3), SNum (Fin 2)] = sin_orden \<and>
   detectOrder plainRuntime [SNum (Fin 5), SNum (Fin 5), SNum (Fin 5)] = ascendente \<and>
   detectOrder plainRuntime [SStr ''x''] = sin_orden \<and>
   detectOrder plainRuntime [SStr ''ab'', SStr ''b'', SStr ''ba''] = ascendente \<and>
   detectOrder plainRuntime [] = sin_orden"
  using detectOrder_classifies [of plainRuntime "[SNum (Fin 1), SNum (Fin 2), SNum (Fin 2), SNum (Fin 3)]"]
    detectOrder_classifies [of plainRuntime "[SNum (Fin 3), SNum (Fin 2), SNum (Fin 2), SNum (Fin 1)]"]
    detectOrder_classifies [of plainRuntime "[SNum (Fin 1), SNum (Fin 3), SNum (Fin 2)]"]
    detectOrder_classifies [of plainRuntime "[SNum (Fin 5), SNum (Fin 5), SNum (Fin 5)]"]
    detectOrder_classifies [of plainRuntime "[SStr ''x'']"]
    detectOrder_classifies [of plainRuntime "[SStr ''ab'', SStr ''b'', SStr ''ba'']"]
    detectOrder_classifies [of plainRuntime "[]"]
  by (simp add: comparableValues_def nonDecreasing_def nonIncreasing_def neverFalls_def
      neverRises_def steps_def isLessThan_def numLess_def ge_def le_def lt_def gt_def
      less_char_def del: not_None_eq)

text \<open>
  C5 as stated fails where an element does not compare with its predecessor, as a text
  that reads as no number against a number: in \<^verbatim>\<open>["abc", 5]\<close> the second element is
  neither \<open>\<ge>\<close> nor \<open>\<le>\<close> its predecessor, and the detector answers ascending.
\<close>

theorem detectOrder_classifies_counterexample:
  "detectOrder plainRuntime [SStr ''abc'', SNum (Fin 5)] = ascendente \<and>
   \<not> nonDecreasing plainRuntime [SStr ''abc'', SNum (Fin 5)] \<and>
   \<not> nonIncreasing plainRuntime [SStr ''abc'', SNum (Fin 5)]"
  by (simp add: detectOrder_never neverFalls_def neverRises_def nonDecreasing_def
      nonIncreasing_def steps_def lt_def gt_def ge_def le_def isLessThan_def numLess_def
      Number_def trim_def isWhiteSpace_def plainRuntime_def decimalLiteral_def
      unsignedDecimal_def isDigit_def)

subsection \<open>Correlation\<close>

lemma foldl_plus: "foldl (\<lambda>sum value. sum + value) a xs = a + sum_list (xs :: real list)"
  by (induction xs arbitrary: a) simp_all

lemma correlation_loop:
  "fold (\<lambda>i (numerator, denominatorX, denominatorY).
           (numerator + (xs ! i - mx) * (ys ! i - my),
            denominatorX + (xs ! i - mx) ^ 2,
            denominatorY + (ys ! i - my) ^ 2))
        [0 ..< n] (0, 0, 0) =
   ((\<Sum>i\<leftarrow>[0 ..< n]. (xs ! i - mx) * (ys ! i - my)),
    (\<Sum>i\<leftarrow>[0 ..< n]. (xs ! i - mx) ^ 2),
    (\<Sum>i\<leftarrow>[0 ..< n]. (ys ! i - my) ^ 2 :: real))"
  by (induction n) simp_all

lemma calculateCorrelation_sums:
  assumes "xs \<noteq> []" and "length xs = length ys"
  shows "calculateCorrelation xs ys =
           (if sqrt (squareSum xs * squareSum ys) = 0 then 0
            else crossSum xs ys / sqrt (squareSum xs * squareSum ys))"
proof -
  from assms have "ys \<noteq> []" by auto
  with assms show ?thesis
    by (simp add: calculateCorrelation_def Let_def foldl_plus correlation_loop crossSum_def
        squareSum_def mean_def)
qed

lemma crossSum_commute: "length xs = length ys \<Longrightarrow> crossSum xs ys = crossSum ys xs"
  by (simp add: crossSum_def mult.commute)

lemma calculateCorrelation_commute: "calculateCorrelation xs ys = calculateCorrelation ys xs"
proof (cases "xs \<noteq> [] \<and> length xs = length ys")
  case True
  then have "ys \<noteq> []" and "length ys = length xs" by auto
  with True show ?thesis
    by (simp add: calculateCorrelation_sums crossSum_commute mult.commute)
next
  case False
  then show ?thesis by (auto simp: calculateCorrelation_def)
qed

subsection \<open>The correlation matrix\<close>

lemma correlationMatrix_entry:
  assumes "i < length (numericColumns a)" and "j < length (numericColumns a)"
  shows "correlationMatrix R (Some a) ! i ! j =
           (let xs = numericColumnValues R (rawRows a) (numericColumns a ! i);
                ys = numericColumnValues R (rawRows a) (numericColumns a ! j);
                k = min (length xs) (length ys)
            in calculateCorrelation (take k xs) (take k ys))"
  using assms by (simp add: correlationMatrix_def Let_def)

text \<open>
  C9. The correlation of two series does not depend on their order. The correlation
  matrix has one row and one column per numeric column; its entry at \<open>(i, j)\<close> is the
  correlation of the numeric values of columns \<open>i\<close> and \<open>j\<close>, both cut to the shorter
  length; and it is symmetric.
\<close>

theorem correlation_symmetric:
  "calculateCorrelation xs ys = calculateCorrelation ys xs \<and>
   length (correlationMatrix R (Some a)) = length (numericColumns a) \<and>
   (\<forall>i < length (numericColumns a). \<forall>j < length (numericColumns a).
      length (correlationMatrix R (Some a) ! i) = length (numericColumns a) \<and>
      correlationMatrix R (Some a) ! i ! j =
        (let cx = numericColumnValues R (rawRows a) (numericColumns a ! i);
             cy = numericColumnValues R (rawRows a) (numericColumns a ! j);
             k = min (length cx) (length cy)
         in calculateCorrelation (take k cx) (take k cy)) \<and>
      correlationMatrix R (Some a) ! i ! j = correlationMatrix R (Some a) ! j ! i)"
proof (intro conjI allI impI)
  show "calculateCorrelation xs ys = calculateCorrelation ys xs"
    by (rule calculateCorrelation_commute)
next
  show "length (correlationMatrix R (Some a)) = length (numericColumns a)"
    by (simp add: correlationMatrix_def Let_def)
next
  fix i j assume "i < length (numericColumns a)" and "j < length (numericColumns a)"
  then show "length (correlationMatrix R (Some a) ! i) = length (numericColumns a)"
    by (simp add: correlationMatrix_def Let_def)
next
  fix i j assume "i < length (numericColumns a)" and "j < length (numericColumns a)"
  then show "correlationMatrix R (Some a) ! i ! j =
        (let cx = numericColumnValues R (rawRows a) (numericColumns a ! i);
             cy = numericColumnValues R (rawRows a) (numericColumns a ! j);
             k = min (length cx) (length cy)
         in calculateCorrelation (take k cx) (take k cy))"
    by (rule correlationMatrix_entry)
next
  fix i j
  assume i: "i < length (numericColumns a)" and j: "j < length (numericColumns a)"
  have ij: "correlationMatrix R (Some a) ! i ! j =
        (let cx = numericColumnValues R (rawRows a) (numericColumns a ! i);
             cy = numericColumnValues R (rawRows a) (numericColumns a ! j);
             k = min (length cx) (length cy)
         in calculateCorrelation (take k cx) (take k cy))"
    using i j by (rule correlationMatrix_entry)
  have ji: "correlationMatrix R (Some a) ! j ! i =
        (let cx = numericColumnValues R (rawRows a) (numericColumns a ! j);
             cy = numericColumnValues R (rawRows a) (numericColumns a ! i);
             k = min (length cx) (length cy)
         in calculateCorrelation (take k cx) (take k cy))"
    using j i by (rule correlationMatrix_entry)
  let ?cx = "numericColumnValues R (rawRows a) (numericColumns a ! i)"
  let ?cy = "numericColumnValues R (rawRows a) (numericColumns a ! j)"
  have "correlationMatrix R (Some a) ! i ! j =
        calculateCorrelation (take (min (length ?cx) (length ?cy)) ?cx)
          (take (min (length ?cx) (length ?cy)) ?cy)"
    unfolding ij Let_def ..
  also have "\<dots> = calculateCorrelation (take (min (length ?cy) (length ?cx)) ?cy)
          (take (min (length ?cy) (length ?cx)) ?cx)"
    unfolding min.commute [of "length ?cy"] by (rule calculateCorrelation_commute)
  also have "\<dots> = correlationMatrix R (Some a) ! j ! i"
    unfolding ji Let_def ..
  finally show "correlationMatrix R (Some a) ! i ! j = correlationMatrix R (Some a) ! j ! i" .
qed

lemma twoColumns_analyzed:
  "analyzeData plainRuntime
     [[(''a'', NumV (Fin 1)), (''b'', NumV (Fin 4))], [(''a'', NumV (Fin 2)), (''b'', NumV (Fin 2))]]
   = Inr twoColumns"
  by code_simp

theorem correlation_symmetric_witness:
  "correlationMatrix plainRuntime (Some twoColumns) ! 0 ! 1 =
     correlationMatrix plainRuntime (Some twoColumns) ! 1 ! 0 \<and>
   correlationMatrix plainRuntime (Some twoColumns) ! 0 ! 1 = calculateCorrelation [1, 2] [4, 2] \<and>
   length (correlationMatrix plainRuntime (Some twoColumns)) = 2"
proof -
  have n: "numericColumns twoColumns = [''a'', ''b'']" by (simp add: twoColumns_def)
  have r: "rawRows twoColumns =
      [[(''a'', NumV (Fin 1)), (''b'', NumV (Fin 4))], [(''a'', NumV (Fin 2)), (''b'', NumV (Fin 2))]]"
    by (simp add: twoColumns_def)
  have a: "numericColumnValues plainRuntime (rawRows twoColumns) ''a'' = [1, 2]"
    by (simp add: r numericColumnValues_def List.map_filter_simps getCell_eval toNumber_def)
  have b: "numericColumnValues plainRuntime (rawRows twoColumns) ''b'' = [4, 2]"
    by (simp add: r numericColumnValues_def List.map_filter_simps getCell_eval toNumber_def)
  note t = correlation_symmetric [of "[]" "[]" plainRuntime twoColumns]
  from t have len: "length (correlationMatrix plainRuntime (Some twoColumns)) = 2"
    by (simp add: n)
  from t have "\<forall>i < length (numericColumns twoColumns). \<forall>j < length (numericColumns twoColumns).
      length (correlationMatrix plainRuntime (Some twoColumns) ! i) = length (numericColumns twoColumns) \<and>
      correlationMatrix plainRuntime (Some twoColumns) ! i ! j =
        (let cx = numericColumnValues plainRuntime (rawRows twoColumns) (numericColumns twoColumns ! i);
             cy = numericColumnValues plainRuntime (rawRows twoColumns) (numericColumns twoColumns ! j);
             k = min (length cx) (length cy)
         in calculateCorrelation (take k cx) (take k cy)) \<and>
      correlationMatrix plainRuntime (Some twoColumns) ! i ! j =
        correlationMatrix plainRuntime (Some twoColumns) ! j ! i"
    by (rule conjunct2 [OF conjunct2])
  from this [rule_format, of 0 1] have
    "correlationMatrix plainRuntime (Some twoColumns) ! 0 ! 1 = calculateCorrelation [1, 2] [4, 2] \<and>
     correlationMatrix plainRuntime (Some twoColumns) ! 0 ! 1 =
       correlationMatrix plainRuntime (Some twoColumns) ! 1 ! 0"
    by (simp add: n a b)
  with len show ?thesis by simp
qed

subsection \<open>Histogram\<close>

lemma buildHistogram_empty: "buildHistogram R [] bins = Inr []"
  by (simp add: buildHistogram_def)

lemma buildHistogram_too_many_arguments:
  "values \<noteq> [] \<Longrightarrow> int (length values) > argumentLimit R \<Longrightarrow>
   buildHistogram R values bins = Inl RangeError"
  by (simp add: buildHistogram_def)

lemma buildHistogram_returns:
  "int (length values) \<le> argumentLimit R \<Longrightarrow> bins \<le> 4294967295 \<Longrightarrow>
   \<exists>h. buildHistogram R values bins = Inr h"
  by (simp add: buildHistogram_def Let_def)

text \<open>
  C6. The histogram is not built for every numeric sequence: \<^verbatim>\<open>Math.min(...values)\<close>
  gives every value to one call, and a call with more arguments than the engine takes
  throws a RangeError (\<open>buildHistogram_too_many_arguments\<close>, for every runtime). So a
  million equal values have no single bin that counts them: the call fails.
\<close>

theorem buildHistogram_million_values:
  "buildHistogram plainRuntime (replicate 1000000 0) 8 = Inl RangeError"
  by (simp add: buildHistogram_def plainRuntime_def)

subsection \<open>Scatter pairs\<close>

lemma scatterInner_eq:
  "length pairs < 4 \<Longrightarrow>
   scatterInner R rows columns i j pairs =
     (let all = pairs @ filter nonEmptyPair
                  (map (scatterPair R rows columns) (map (Pair i) [j ..< length columns]))
      in if length all \<ge> 4 then Returned (take 4 all) else Finished all)"
proof (induction R rows columns i j pairs rule: scatterInner.induct)
  case (1 R rows columns i j pairs)
  show ?case
  proof (cases "j < length columns")
    case False
    then show ?thesis
      using "1.prems" by (simp add: scatterInner.simps [of R rows columns i j pairs])
  next
    case True
    let ?p = "scatterPair R rows columns (i, j)"
    let ?pairs' = "if length (points ?p) > 0 then pairs @ [?p] else pairs"
    let ?rest = "filter nonEmptyPair
                   (map (scatterPair R rows columns) (map (Pair i) [j + 1 ..< length columns]))"
    have upt: "[j ..< length columns] = j # [j + 1 ..< length columns]"
      using True by (simp add: upt_conv_Cons)
    have all: "pairs @ filter nonEmptyPair
                 (map (scatterPair R rows columns) (map (Pair i) [j ..< length columns]))
               = ?pairs' @ ?rest"
      by (simp add: upt nonEmptyPair_def)
    show ?thesis
    proof (cases "length ?pairs' \<ge> 4")
      case full: True
      then have "take 4 (?pairs' @ ?rest) = ?pairs'"
        using "1.prems" by (auto split: if_splits)
      moreover have "scatterInner R rows columns i j pairs = Returned ?pairs'"
        using True full by (simp add: scatterInner.simps [of R rows columns i j pairs] Let_def)
      moreover have "length (?pairs' @ ?rest) \<ge> 4" using full by simp
      ultimately show ?thesis unfolding all Let_def by simp
    next
      case room: False
      then have lt: "length ?pairs' < 4" by simp
      have "scatterInner R rows columns i j pairs = scatterInner R rows columns i (j + 1) ?pairs'"
        using True room by (simp add: scatterInner.simps [of R rows columns i j pairs] Let_def)
      also have "\<dots> = (let all = ?pairs' @ ?rest
                        in if length all \<ge> 4 then Returned (take 4 all) else Finished all)"
        using "1.IH" [OF True refl refl room lt] .
      finally show ?thesis unfolding all .
    qed
  qed
qed

lemma scatterOuter_eq:
  "length pairs < 4 \<Longrightarrow>
   scatterOuter R rows columns i pairs =
     take 4 (pairs @ filter nonEmptyPair
               (map (scatterPair R rows columns)
                  (concat (map (\<lambda>i. map (Pair i) [i + 1 ..< length columns])
                             [i ..< length columns]))))"
proof (induction R rows columns i pairs rule: scatterOuter.induct)
  case (1 R rows columns i pairs)
  show ?case
  proof (cases "i < length columns")
    case False
    then show ?thesis
      using "1.prems" by (simp add: scatterOuter.simps [of R rows columns i pairs])
  next
    case True
    let ?row = "filter nonEmptyPair
                  (map (scatterPair R rows columns) (map (Pair i) [i + 1 ..< length columns]))"
    let ?rest = "filter nonEmptyPair
                   (map (scatterPair R rows columns)
                      (concat (map (\<lambda>i. map (Pair i) [i + 1 ..< length columns])
                                 [i + 1 ..< length columns])))"
    have upt: "[i ..< length columns] = i # [i + 1 ..< length columns]"
      using True by (simp add: upt_conv_Cons)
    have all: "pairs @ filter nonEmptyPair
                 (map (scatterPair R rows columns)
                    (concat (map (\<lambda>i. map (Pair i) [i + 1 ..< length columns])
                               [i ..< length columns])))
               = (pairs @ ?row) @ ?rest"
      by (simp add: upt)
    have inner: "scatterInner R rows columns i (i + 1) pairs =
        (if length (pairs @ ?row) \<ge> 4 then Returned (take 4 (pairs @ ?row))
         else Finished (pairs @ ?row))"
      using scatterInner_eq [OF "1.prems", of R rows columns i "i + 1"] by (simp add: Let_def)
    show ?thesis
    proof (cases "length (pairs @ ?row) \<ge> 4")
      case full: True
      then have "scatterOuter R rows columns i pairs = take 4 (pairs @ ?row)"
        using True inner by (simp add: scatterOuter.simps [of R rows columns i pairs])
      also have "\<dots> = take 4 ((pairs @ ?row) @ ?rest)"
        using full by simp
      finally show ?thesis unfolding all .
    next
      case room: False
      then have fin: "scatterInner R rows columns i (i + 1) pairs = Finished (pairs @ ?row)"
        and lt: "length (pairs @ ?row) < 4"
        using inner by simp_all
      have "scatterOuter R rows columns i pairs = scatterOuter R rows columns (i + 1) (pairs @ ?row)"
        using True fin by (simp add: scatterOuter.simps [of R rows columns i pairs])
      also have "\<dots> = take 4 ((pairs @ ?row) @ ?rest)"
        using "1.IH" [OF True fin lt] .
      finally show ?thesis unfolding all .
    qed
  qed
qed

lemma scatterPairs_eq:
  "scatterPairs R (Some a) =
     take 4 (filter nonEmptyPair
               (map (scatterPair R (rawRows a) (numericColumns a))
                  (indexPairs (length (numericColumns a)))))"
  by (simp add: scatterPairs_def scatterOuter_eq indexPairs_def)

lemma mem_indexPairs: "(a, b) \<in> set (indexPairs n) \<longleftrightarrow> a < b \<and> b < n"
proof
  assume "(a, b) \<in> set (indexPairs n)"
  then show "a < b \<and> b < n" by (auto simp: indexPairs_def)
next
  assume h: "a < b \<and> b < n"
  then have "a \<in> {0 ..< n}" and "(a, b) \<in> Pair a ` {Suc a ..< n}" by auto
  then have "\<exists>x \<in> {0 ..< n}. (a, b) \<in> Pair x ` {Suc x ..< n}" by (rule bexI [rotated])
  then show "(a, b) \<in> set (indexPairs n)" by (simp add: indexPairs_def)
qed
lemma set_indexPairs: "set (indexPairs n) = {(i, j). i < j \<and> j < n}"
proof (rule set_eqI)
  fix ij :: "nat \<times> nat"
  show "ij \<in> set (indexPairs n) \<longleftrightarrow> ij \<in> {(i, j). i < j \<and> j < n}"
    by (cases ij) (simp add: mem_indexPairs)
qed

lemma scatterPoints_empty_iff:
  "scatterPoints R rows xc yc \<noteq> [] \<longleftrightarrow>
     (\<exists>row \<in> set rows. toNumber R (getCell row xc) \<noteq> None \<and> toNumber R (getCell row yc) \<noteq> None)"
  by (induction rows) (auto simp: scatterPoints_def List.map_filter_simps split: option.splits)

text \<open>
  C8. The scatter pairs are the first 4 (or all, when there are fewer) of the pairs of
  numeric columns \<open>(i, j)\<close>, \<open>i < j\<close>, taken by \<open>i\<close> and then by \<open>j\<close>, that have
  at least one row where both columns coerce to numbers. So there are at most 4 of them
  and each has a point.
\<close>

theorem scatterPairs_first_four:
  "scatterPairs R (Some a) =
     take 4 (filter nonEmptyPair
               (map (scatterPair R (rawRows a) (numericColumns a))
                  (indexPairs (length (numericColumns a))))) \<and>
   length (scatterPairs R (Some a)) \<le> 4 \<and>
   (\<forall>p \<in> set (scatterPairs R (Some a)). points p \<noteq> []) \<and>
   set (indexPairs (length (numericColumns a))) =
     {(i, j). i < j \<and> j < length (numericColumns a)} \<and>
   (\<forall>ij. nonEmptyPair (scatterPair R (rawRows a) (numericColumns a) ij) \<longleftrightarrow>
      (\<exists>row \<in> set (rawRows a).
         toNumber R (getCell row (numericColumns a ! fst ij)) \<noteq> None \<and>
         toNumber R (getCell row (numericColumns a ! snd ij)) \<noteq> None))"
proof (intro conjI ballI allI)
  show e: "scatterPairs R (Some a) =
     take 4 (filter nonEmptyPair
               (map (scatterPair R (rawRows a) (numericColumns a))
                  (indexPairs (length (numericColumns a)))))"
    by (rule scatterPairs_eq)
  show "length (scatterPairs R (Some a)) \<le> 4"
    by (simp add: e)
  show "points p \<noteq> []" if "p \<in> set (scatterPairs R (Some a))" for p
  proof -
    from that have "p \<in> set (filter nonEmptyPair
               (map (scatterPair R (rawRows a) (numericColumns a))
                  (indexPairs (length (numericColumns a)))))"
      unfolding e by (rule in_set_takeD)
    then show ?thesis by (simp add: nonEmptyPair_def)
  qed
  show "set (indexPairs (length (numericColumns a))) =
     {(i, j). i < j \<and> j < length (numericColumns a)}"
    by (rule set_indexPairs)
  show "nonEmptyPair (scatterPair R (rawRows a) (numericColumns a) ij) \<longleftrightarrow>
      (\<exists>row \<in> set (rawRows a).
         toNumber R (getCell row (numericColumns a ! fst ij)) \<noteq> None \<and>
         toNumber R (getCell row (numericColumns a ! snd ij)) \<noteq> None)" for ij
    by (simp only: nonEmptyPair_def scatterPair_def ScatterPair.simps scatterPoints_empty_iff)
qed

theorem scatterPairs_first_four_witness:
  "scatterPairs plainRuntime (Some twoColumns) =
     [\<lparr>xColumn = ''a'', yColumn = ''b'', points = [(1, 4), (2, 2)]\<rparr>]"
proof -
  have n: "numericColumns twoColumns = [''a'', ''b'']" by (simp add: twoColumns_def)
  have r: "rawRows twoColumns =
      [[(''a'', NumV (Fin 1)), (''b'', NumV (Fin 4))], [(''a'', NumV (Fin 2)), (''b'', NumV (Fin 2))]]"
    by (simp add: twoColumns_def)
  have i: "indexPairs (length [''a'', ''b'']) = [(0, Suc 0)]"
    by code_simp
  have p: "scatterPair plainRuntime (rawRows twoColumns) [''a'', ''b''] (0, Suc 0) =
      \<lparr>xColumn = ''a'', yColumn = ''b'', points = [(1, 4), (2, 2)]\<rparr>"
    by (simp add: r scatterPair_def scatterPoints_def List.map_filter_simps getCell_eval toNumber_def)
  from scatterPairs_first_four [of plainRuntime twoColumns]
  have "scatterPairs plainRuntime (Some twoColumns) =
     take 4 (filter nonEmptyPair
               (map (scatterPair plainRuntime (rawRows twoColumns) (numericColumns twoColumns))
                  (indexPairs (length (numericColumns twoColumns)))))"
    by (rule conjunct1)
  then show ?thesis
    unfolding n i by (simp add: p nonEmptyPair_def)
qed

text \<open>With five numeric columns the enumeration stops after the fourth pair.\<close>

lemma fiveColumns_analyzed:
  "analyzeData plainRuntime
     [[(''a'', NumV (Fin 1)), (''b'', NumV (Fin 2)), (''c'', NumV (Fin 3)),
       (''d'', NumV (Fin 4)), (''e'', NumV (Fin 5))]] = Inr fiveColumns"
  by code_simp

lemma scatterPairs_stop_at_four:
  "map (\<lambda>p. (xColumn p, yColumn p)) (scatterPairs plainRuntime (Some fiveColumns)) =
     [(''a'', ''b''), (''a'', ''c''), (''a'', ''d''), (''a'', ''e'')]"
  by code_simp

end
